theory Spec2Isabelle
  imports Complex_Main
begin

section \<open>Tail-event plots: a model of \<^verbatim>\<open>tail_events_distribution_graphs.py\<close>\<close>

text \<open>
  The module has two arithmetic helpers, \<^verbatim>\<open>calculate_tails\<close> and \<^verbatim>\<open>calculate_xrange\<close>,
  and one plotting routine, \<^verbatim>\<open>plot_tail_events\<close>, which looks a distribution up by name,
  samples its density on a grid and draws the result with matplotlib.

  The plotting routine is modelled over \<^typ>\<open>real\<close>: the values that scipy and NumPy
  return are taken to be finite and the arithmetic on them exact, so NaN, infinities and
  rounding are not part of that model. The two helpers are modelled twice: in exact
  arithmetic, as the plotting routine uses them, and on Python's own numbers (unbounded
  integers and binary64 floats with their rounding, overflow and conversion), where
  their behaviour depends on it. The sample count \<^verbatim>\<open>n\<close> is an unbounded Python
  integer, hence an \<^typ>\<open>int\<close>. Exceptions are values of the type \<open>error\<close>, and a
  routine that can raise returns \<open>error + 'a\<close>.
\<close>

subsection \<open>The arithmetic helpers, in exact arithmetic\<close>

text \<open>\<^verbatim>\<open>return mean - 3 * std, mean + 3 * std\<close>\<close>

definition calculate_tails :: "real \<Rightarrow> real \<Rightarrow> real \<times> real" where
  "calculate_tails mean std = (mean - 3 * std, mean + 3 * std)"

text \<open>\<^verbatim>\<open>return mean - 4 * std, mean + 4 * std\<close>\<close>

definition calculate_xrange :: "real \<Rightarrow> real \<Rightarrow> real \<times> real" where
  "calculate_xrange mean std = (mean - 4 * std, mean + 4 * std)"

subsection \<open>Exceptions\<close>

text \<open>
  \<open>AssertionError\<close> is raised by the \<^verbatim>\<open>assert\<close> on the distribution name, \<open>ValueError\<close>
  by \<^verbatim>\<open>np.linspace\<close> on a negative sample count and by the builtin \<^verbatim>\<open>max\<close> on an empty
  sequence and by matplotlib on a colour it does not know. \<open>LibraryError\<close> stands for
  whatever the distribution constructor raises. \<open>OverflowError\<close> is raised by Python
  when an integer too large for a float meets a float in an arithmetic operation.
\<close>

datatype error = AssertionError string | ValueError | LibraryError string | OverflowError

subsection \<open>Python's numbers\<close>

text \<open>
  A binary64 float is a finite value, an infinity or NaN. Finite values are kept as the
  reals they denote; the two zeros are not told apart (they compare equal in Python).
\<close>

datatype binary64 = Fin real | PosInf | NegInf | NaN

text \<open>Rounding to the nearest integer, a tie going to the even neighbour.\<close>

definition rne :: "real \<Rightarrow> int" where
  "rne t =
     (let f = \<lfloor>t\<rfloor>; d = t - of_int f
      in if d < 1 / 2 then f
         else if 1 / 2 < d then f + 1
         else if even f then f else f + 1)"

text \<open>
  The binade of a positive magnitude \<open>a\<close> is the exponent \<open>e\<close> with
  \<open>2\<^sup>e \<le> a < 2\<^sup>e\<^sup>+\<^sup>1\<close>, not below \<open>-1022\<close> (the subnormal range shares the
  exponent of the smallest normal numbers). The floats of a binade are the multiples of
  \<open>2\<^sup>e\<^sup>-\<^sup>5\<^sup>2\<close>, and a magnitude is rounded to the nearest of them.
\<close>

definition binade :: "real \<Rightarrow> int" where
  "binade a = max \<lfloor>log 2 a\<rfloor> (- 1022)"

definition round_mag :: "real \<Rightarrow> real" where
  "round_mag a =
     (if a = 0 then 0
      else 2 powr (of_int (binade a) - 52)
             * of_int (rne (a / 2 powr (of_int (binade a) - 52))))"

text \<open>
  The result of an operation whose exact value is \<open>x\<close>: the sign is kept, the
  magnitude is rounded, and a rounded magnitude of \<open>2\<^sup>1\<^sup>0\<^sup>2\<^sup>4\<close> or more is an infinity.
\<close>

definition overflow_threshold :: real where
  "overflow_threshold = 2 ^ 1024"

definition round64 :: "real \<Rightarrow> binary64" where
  "round64 x =
     (let r = round_mag \<bar>x\<bar>
      in if overflow_threshold \<le> r then (if 0 < x then PosInf else NegInf)
         else Fin (if x < 0 then - r else r))"





text \<open>The comparisons \<^verbatim>\<open><=\<close> and \<^verbatim>\<open><\<close> on floats; both are false when a NaN takes part.\<close>

fun fle :: "binary64 \<Rightarrow> binary64 \<Rightarrow> bool" where
  "fle (Fin a) (Fin b) = (a \<le> b)"
| "fle NaN _ = False"
| "fle _ NaN = False"
| "fle NegInf _ = True"
| "fle _ PosInf = True"
| "fle _ _ = False"


text \<open>
  A Python number is an \<^verbatim>\<open>int\<close> or a \<^verbatim>\<open>float\<close>. An operation on two integers is exact.
  Otherwise the integer operand is converted to a float, correctly rounded, which raises
  \<^verbatim>\<open>OverflowError\<close> when the integer is too large; then the operation is that of the
  floats, which never raises.
\<close>

datatype number = PyInt int | PyFloat binary64

definition as_float :: "number \<Rightarrow> error + binary64" where
  "as_float v =
     (case v of
        PyFloat f \<Rightarrow> Inr f
      | PyInt i \<Rightarrow>
          (case round64 (of_int i) of
             Fin r \<Rightarrow> Inr (Fin r)
           | _ \<Rightarrow> Inl OverflowError))"





subsection \<open>The arithmetic helpers, on Python's numbers\<close>



subsection \<open>The table of distributions\<close>

text \<open>The four constructors of \<^verbatim>\<open>scipy.stats\<close> that the table refers to.\<close>

datatype rv_continuous = Stats_norm | Stats_uniform | Stats_laplace | Stats_expon

text \<open>
  The dictionary \<^verbatim>\<open>distributions\<close>, with its keys as the source spells them.
\<close>

definition distributions :: "(string \<times> rv_continuous) list" where
  "distributions =
     [(''normal'', Stats_norm),
      (''uniform'', Stats_uniform),
      (''Laplace'', Stats_laplace),
      (''exponential'', Stats_expon)]"

text \<open>
  The message of the \<^verbatim>\<open>assert\<close>. The literal is continued over a line break with a
  backslash, so the indentation of the second line is part of the string.
\<close>

definition assert_message :: string where
  "assert_message =
     ''Please specify a valid value for 'distribution'.         Valid values are 'normal', 'uniform', 'Laplace', and 'exponential'.''"

text \<open>
  A frozen distribution, as far as the module uses it: the results of \<^verbatim>\<open>dist.mean()\<close> and
  \<^verbatim>\<open>dist.std()\<close>, and the density \<^verbatim>\<open>dist.pdf\<close>.
\<close>

record rv_frozen =
  dist_mean :: real
  dist_std :: real
  dist_pdf :: "real \<Rightarrow> real"

text \<open>
  \<^verbatim>\<open>scipy.stats\<close> is a library outside the module, so the model takes it as a parameter:
  a function from a constructor and the keyword arguments \<^verbatim>\<open>**params\<close> to either the
  exception the constructor raises or the frozen distribution.
\<close>

type_synonym scipy_stats = "rv_continuous \<Rightarrow> (string \<times> real) list \<Rightarrow> error + rv_frozen"

text \<open>
  Lines 56 to 65: the \<^verbatim>\<open>assert\<close> on the name, then the call of the constructor found in
  the table.
\<close>

definition resolve_distribution ::
  "scipy_stats \<Rightarrow> string \<Rightarrow> (string \<times> real) list \<Rightarrow> error + rv_frozen" where
  "resolve_distribution scipy distribution params =
     (case map_of distributions distribution of
        None \<Rightarrow> Inl (AssertionError assert_message)
      | Some ctor \<Rightarrow> scipy ctor params)"

subsection \<open>Sampling the density\<close>

text \<open>
  \<^verbatim>\<open>np.linspace(start, stop, num)\<close> is NumPy's, not the module's; the model follows its
  implementation with \<^verbatim>\<open>endpoint=True\<close>. A negative \<^verbatim>\<open>num\<close> raises \<^verbatim>\<open>ValueError\<close>.
  Otherwise the samples are \<^verbatim>\<open>arange(0, num) * step + start\<close> with
  \<^verbatim>\<open>step = (stop - start) / (num - 1)\<close>, where for \<^verbatim>\<open>num - 1 = 0\<close> the factor is
  \<^verbatim>\<open>stop - start\<close> itself, and for \<^verbatim>\<open>num > 1\<close> the last sample is overwritten with
  \<^verbatim>\<open>stop\<close>.
\<close>

definition linspace :: "real \<Rightarrow> real \<Rightarrow> int \<Rightarrow> error + real list" where
  "linspace start stop num =
     (if num < 0 then Inl ValueError
      else
        let divisor = num - 1;
            delta = stop - start;
            y = map real [0..<nat num];
            y = (if 0 < divisor then map (\<lambda>v. v * (delta / real_of_int divisor)) y
                 else map (\<lambda>v. v * delta) y);
            y = map (\<lambda>v. v + start) y
        in Inr (if 1 < num then y[nat num - 1 := stop] else y))"

text \<open>
  Lines 75 and 76: \<^verbatim>\<open>x = np.linspace(x_min, x_max, n)\<close> and \<^verbatim>\<open>y = dist.pdf(x)\<close>, the
  density applied to every sample.
\<close>

definition sample_density ::
  "rv_frozen \<Rightarrow> real \<Rightarrow> real \<Rightarrow> int \<Rightarrow> error + (real list \<times> real list)" where
  "sample_density frozen x_min x_max n =
     (case linspace x_min x_max n of
        Inl e \<Rightarrow> Inl e
      | Inr x \<Rightarrow> Inr (x, map (dist_pdf frozen) x))"

text \<open>
  The masks of lines 86 and 87, \<^verbatim>\<open>x < tails[0]\<close> and \<^verbatim>\<open>x > tails[1]\<close>, compared
  element by element.
\<close>

definition left_tail_where :: "real list \<Rightarrow> real \<times> real \<Rightarrow> bool list" where
  "left_tail_where x tails = map (\<lambda>xi. xi < fst tails) x"

definition right_tail_where :: "real list \<Rightarrow> real \<times> real \<Rightarrow> bool list" where
  "right_tail_where x tails = map (\<lambda>xi. xi > snd tails) x"

text \<open>
  Python's builtin \<^verbatim>\<open>max\<close> on a sequence: \<^verbatim>\<open>ValueError\<close> on an empty one, otherwise
  the running maximum, replaced whenever a later item is greater.
\<close>

definition py_max :: "real list \<Rightarrow> error + real" where
  "py_max ys =
     (case ys of
        [] \<Rightarrow> Inl ValueError
      | v # vs \<Rightarrow> Inr (fold (\<lambda>item best. if item > best then item else best) vs v))"

subsection \<open>The figure\<close>

text \<open>
  matplotlib is outside the module as well. A figure with its single axes is a record of
  what the calls of the module put there: the filled polygons with the arguments of
  \<^verbatim>\<open>fill_between\<close>, the vertical lines, the labels, the font size of the x tick labels,
  the y ticks and the y limits (\<open>None\<close> while matplotlib chooses them). How matplotlib
  turns the polygons into pixels is not modelled. The model is of a matplotlib whose
  ticks still have the attribute \<^verbatim>\<open>label\<close> that line 94 uses.
\<close>

record poly_collection =
  pc_x :: "real list"
  pc_y1 :: real
  pc_y2 :: "real list"
  pc_where :: "bool list option"
  pc_facecolor :: string
  pc_interpolate :: bool

record line2d =
  line_x :: real
  line_color :: string
  line_style :: string
  line_width :: real

record figure =
  figsize :: "real \<times> real"
  ax_collections :: "poly_collection list"
  ax_lines :: "line2d list"
  ax_title :: "(string \<times> nat) option"
  ax_xlabel :: "(string \<times> nat) option"
  ax_ylabel :: "(string \<times> nat) option"
  ax_xtick_fontsize :: "nat option"
  ax_yticks :: "real list option"
  ax_ylim :: "(real \<times> real) option"

text \<open>
  The state of \<^verbatim>\<open>pyplot\<close> is its registry of figures, in the order of their creation;
  the current figure is the last one. A figure or axes object is its index there.
\<close>

type_synonym pyplot = "figure list"

definition subplots :: "real \<times> real \<Rightarrow> pyplot \<Rightarrow> nat \<times> pyplot" where
  "subplots figsz plt =
     (length plt,
      plt @ [\<lparr>figsize = figsz, ax_collections = [], ax_lines = [], ax_title = None,
              ax_xlabel = None, ax_ylabel = None, ax_xtick_fontsize = None,
              ax_yticks = None, ax_ylim = None\<rparr>])"

definition update_axes :: "nat \<Rightarrow> (figure \<Rightarrow> figure) \<Rightarrow> pyplot \<Rightarrow> pyplot" where
  "update_axes ax f plt = plt[ax := f (plt ! ax)]"

text \<open>The axes that the functions of \<^verbatim>\<open>plt\<close> act on.\<close>

definition gca :: "pyplot \<Rightarrow> nat" where
  "gca plt = length plt - 1"

text \<open>
  \<^verbatim>\<open>ax.fill_between\<close> builds the collection before it adds it to the axes, and building
  it raises \<^verbatim>\<open>ValueError\<close> when the face colour is not a colour. Which strings are
  colours is matplotlib's table, a parameter \<open>is_color_like\<close> of the model. A collection
  without a mask (\<open>None\<close>) is filled over all of \<open>x\<close>.
\<close>

definition fill_between ::
  "(string \<Rightarrow> bool) \<Rightarrow> nat \<Rightarrow> real list \<Rightarrow> real \<Rightarrow> real list \<Rightarrow> bool list option
     \<Rightarrow> string \<Rightarrow> bool \<Rightarrow> pyplot \<Rightarrow> error + pyplot" where
  "fill_between is_color_like ax x y1 y2 wh facecolor interpolate plt =
     (if is_color_like facecolor then
        Inr (update_axes ax (\<lambda>a. a\<lparr>ax_collections := ax_collections a @
          [\<lparr>pc_x = x, pc_y1 = y1, pc_y2 = y2, pc_where = wh,
            pc_facecolor = facecolor, pc_interpolate = interpolate\<rparr>]\<rparr>) plt)
      else Inl ValueError)"

definition axvline :: "real \<Rightarrow> string \<Rightarrow> string \<Rightarrow> real \<Rightarrow> pyplot \<Rightarrow> pyplot" where
  "axvline x color linestyle linewidth plt =
     update_axes (gca plt) (\<lambda>a. a\<lparr>ax_lines := ax_lines a @
        [\<lparr>line_x = x, line_color = color, line_style = linestyle,
          line_width = linewidth\<rparr>]\<rparr>) plt"

text \<open>
  \<^verbatim>\<open>plt.ylim(bottom, top)\<close> does not store its arguments as they are. matplotlib first
  passes them through \<^verbatim>\<open>nonsingular\<close> (with \<^verbatim>\<open>expander=0.05\<close> and \<^verbatim>\<open>tiny=1e-15\<close>), which
  replaces an interval that is too small against the machine precision, and then
  restores the order in which they were given. \<open>finfo_tiny\<close> is the smallest positive
  normal float, NumPy's \<^verbatim>\<open>finfo(float).tiny\<close>.
\<close>

definition finfo_tiny :: real where
  "finfo_tiny = 1 / 2 ^ 1022"

definition nonsingular :: "real \<Rightarrow> real \<Rightarrow> real \<Rightarrow> real \<Rightarrow> real \<times> real" where
  "nonsingular vmin vmax expander tiny =
     (let (vmin, vmax) = (if vmax < vmin then (vmax, vmin) else (vmin, vmax));
          maxabsvalue = max \<bar>vmin\<bar> \<bar>vmax\<bar>
      in if maxabsvalue < (10 ^ 6 / tiny) * finfo_tiny then (- expander, expander)
         else if vmax - vmin \<le> maxabsvalue * tiny then
           (if vmax = 0 \<and> vmin = 0 then (- expander, expander)
            else (vmin - expander * \<bar>vmin\<bar>, vmax + expander * \<bar>vmax\<bar>))
         else (vmin, vmax))"

definition set_ylim :: "real \<Rightarrow> real \<Rightarrow> real \<times> real" where
  "set_ylim ybottom ytop =
     (let reverse = (ybottom > ytop);
          (v0, v1) = nonsingular ybottom ytop 0.05 (1 / 10 ^ 15)
      in if reverse then (max v0 v1, min v0 v1) else (min v0 v1, max v0 v1))"

subsection \<open>The plotting routine\<close>

text \<open>
  \<open>plot_tail_events\<close>, statement by statement; \<open>frozen\<close> is the variable \<^verbatim>\<open>dist\<close> of
  the source. The result is the exception raised or
  the index of the figure, which stands for the pair \<^verbatim>\<open>(fig, ax)\<close>, together with the
  state of \<^verbatim>\<open>pyplot\<close> the call leaves behind. An exception raised after
  \<^verbatim>\<open>plt.subplots\<close> leaves the figure, as far as it was drawn, in the registry.
\<close>

definition plot_tail_events ::
  "scipy_stats \<Rightarrow> (string \<Rightarrow> bool) \<Rightarrow> pyplot \<Rightarrow> string \<Rightarrow> int \<Rightarrow> string \<Rightarrow> string
     \<Rightarrow> (string \<times> real) list \<Rightarrow> (error + nat) \<times> pyplot" where
  "plot_tail_events scipy is_color_like plt distribution n tail_color center_color params =
     (case resolve_distribution scipy distribution params of
        Inl e \<Rightarrow> (Inl e, plt)
      | Inr frozen \<Rightarrow>
          let mean = dist_mean frozen;
              std = dist_std frozen;
              (x_min, x_max) = calculate_xrange mean std
          in
          (case sample_density frozen x_min x_max n of
             Inl e \<Rightarrow> (Inl e, plt)
           | Inr (x, y) \<Rightarrow>
               let tails = calculate_tails mean std;
                   (ax, plt) = subplots (9, 6) plt
               in
               (case fill_between is_color_like ax x 0 y None center_color True plt of
                  Inl e \<Rightarrow> (Inl e, plt)
                | Inr plt \<Rightarrow>
               (case fill_between is_color_like ax x 0 y (Some (left_tail_where x tails))
                       tail_color True plt of
                  Inl e \<Rightarrow> (Inl e, plt)
                | Inr plt \<Rightarrow>
               (case fill_between is_color_like ax x 0 y (Some (right_tail_where x tails))
                       tail_color True plt of
                  Inl e \<Rightarrow> (Inl e, plt)
                | Inr plt \<Rightarrow>
                   let plt = update_axes (gca plt) (\<lambda>a. a\<lparr>ax_title :=
                               Some (''Tail events for '' @ distribution @ '' distribution'', 16)\<rparr>)
                               plt;
                       plt = update_axes (gca plt) (\<lambda>a. a\<lparr>ax_xlabel := Some (''x'', 14)\<rparr>) plt;
                       plt = update_axes (gca plt) (\<lambda>a. a\<lparr>ax_ylabel := Some (''f(x)'', 14)\<rparr>) plt;
                       plt = update_axes ax (\<lambda>a. a\<lparr>ax_xtick_fontsize := Some 14\<rparr>) plt;
                       plt = update_axes ax (\<lambda>a. a\<lparr>ax_yticks := Some []\<rparr>) plt;
                       plt = fold (\<lambda>tail. axvline (fst tail) ''black'' (snd tail) 1)
                               (zip [fst tails, snd tails, mean] [''-'', ''-'', ''--'']) plt
                   in
                   (case py_max y of
                      Inl e \<Rightarrow> (Inl e, plt)
                    | Inr m \<Rightarrow>
                        (Inr ax,
                         update_axes (gca plt)
                           (\<lambda>a. a\<lparr>ax_ylim := Some (set_ylim 0 (1.2 * m))\<rparr>) plt)))))))"

subsection \<open>The libraries at their documented parameters\<close>

text \<open>
  An instance of the parameter \<open>scipy\<close>, for evaluating the routine on concrete calls:
  the four distributions with the keyword arguments \<^verbatim>\<open>loc\<close> (default 0) and \<^verbatim>\<open>scale\<close>
  (default 1) as scipy documents them, and a \<^verbatim>\<open>TypeError\<close> for any other keyword. And
  an instance of \<open>is_color_like\<close>: the hex codes of six digits, which are what the
  docstring asks for and a part of what matplotlib accepts.
\<close>

definition hex_color :: "string \<Rightarrow> bool" where
  "hex_color c =
     (case c of
        [] \<Rightarrow> False
      | h # ds \<Rightarrow>
          h = CHR ''#'' \<and> length ds = 6
          \<and> list_all (\<lambda>d. d \<in> set ''0123456789abcdefABCDEF'') ds)"

definition kwarg :: "(string \<times> real) list \<Rightarrow> string \<Rightarrow> real \<Rightarrow> real" where
  "kwarg params k d = (case map_of params k of None \<Rightarrow> d | Some v \<Rightarrow> v)"

definition norm_frozen :: "real \<Rightarrow> real \<Rightarrow> rv_frozen" where
  "norm_frozen loc scale =
     \<lparr>dist_mean = loc, dist_std = scale,
      dist_pdf = (\<lambda>x. exp (- (((x - loc) / scale)\<^sup>2) / 2) / (scale * sqrt (2 * pi)))\<rparr>"

definition uniform_frozen :: "real \<Rightarrow> real \<Rightarrow> rv_frozen" where
  "uniform_frozen loc scale =
     \<lparr>dist_mean = loc + scale / 2, dist_std = scale / sqrt 12,
      dist_pdf = (\<lambda>x. if loc \<le> x \<and> x \<le> loc + scale then 1 / scale else 0)\<rparr>"

definition laplace_frozen :: "real \<Rightarrow> real \<Rightarrow> rv_frozen" where
  "laplace_frozen loc scale =
     \<lparr>dist_mean = loc, dist_std = sqrt 2 * scale,
      dist_pdf = (\<lambda>x. exp (- \<bar>x - loc\<bar> / scale) / (2 * scale))\<rparr>"

definition expon_frozen :: "real \<Rightarrow> real \<Rightarrow> rv_frozen" where
  "expon_frozen loc scale =
     \<lparr>dist_mean = loc + scale, dist_std = scale,
      dist_pdf = (\<lambda>x. if loc \<le> x then exp (- (x - loc) / scale) / scale else 0)\<rparr>"

definition scipy_frozen :: scipy_stats where
  "scipy_frozen ctor params =
     (if list_all (\<lambda>kv. fst kv = ''loc'' \<or> fst kv = ''scale'') params then
        let loc = kwarg params ''loc'' 0;
            scale = kwarg params ''scale'' 1
        in Inr (case ctor of
                  Stats_norm \<Rightarrow> norm_frozen loc scale
                | Stats_uniform \<Rightarrow> uniform_frozen loc scale
                | Stats_laplace \<Rightarrow> laplace_frozen loc scale
                | Stats_expon \<Rightarrow> expon_frozen loc scale)
      else Inl (LibraryError ''TypeError''))"


subsection \<open>Concrete calls\<close>

text \<open>
  Three calls with the default colours and no keyword arguments, on which the routine is
  evaluated below, and the grid of the second.
\<close>

definition exponential_3 :: "(error + nat) \<times> pyplot" where
  "exponential_3 =
     plot_tail_events scipy_frozen hex_color [] ''exponential'' 3 ''#ff0000'' ''#e6ffff'' []"

definition exponential_17 :: "(error + nat) \<times> pyplot" where
  "exponential_17 =
     plot_tail_events scipy_frozen hex_color [] ''exponential'' 17 ''#ff0000'' ''#e6ffff'' []"

definition uniform_2 :: "(error + nat) \<times> pyplot" where
  "uniform_2 =
     plot_tail_events scipy_frozen hex_color [] ''uniform'' 2 ''#ff0000'' ''#e6ffff'' []"

definition grid17 :: "real list" where
  "grid17 = [- 3, - 5 / 2, - 2, - 3 / 2, - 1, - 1 / 2, 0, 1 / 2, 1, 3 / 2, 2, 5 / 2, 3, 7 / 2,
             4, 9 / 2, 5]"

section \<open>Auxiliary facts\<close>

subsection \<open>The components of the two pairs\<close>

lemma calculate_tails_simps [simp]:
  "fst (calculate_tails mean std) = mean - 3 * std"
  "snd (calculate_tails mean std) = mean + 3 * std"
  by (simp_all add: calculate_tails_def)

lemma calculate_xrange_simps [simp]:
  "fst (calculate_xrange mean std) = mean - 4 * std"
  "snd (calculate_xrange mean std) = mean + 4 * std"
  by (simp_all add: calculate_xrange_def)

subsection \<open>The figure registry\<close>

text \<open>
  Right after \<open>subplots\<close> the new figure is the last of the registry, so the calls
  through the axes object and the calls through \<^verbatim>\<open>plt\<close> reach the same figure.
\<close>

lemma update_axes_last [simp]:
  "update_axes (length plt) f (plt @ [fig]) = plt @ [f fig]"
  by (simp add: update_axes_def)

lemma gca_last [simp]: "gca (plt @ [fig]) = length plt"
  by (simp add: gca_def)

lemma fill_between_last [simp]:
  "fill_between is_color_like (length plt) x y1 y2 wh facecolor interpolate (plt @ [fig]) =
     (if is_color_like facecolor then
        Inr (plt @ [fig\<lparr>ax_collections := ax_collections fig @
          [\<lparr>pc_x = x, pc_y1 = y1, pc_y2 = y2, pc_where = wh,
            pc_facecolor = facecolor, pc_interpolate = interpolate\<rparr>]\<rparr>])
      else Inl ValueError)"
  by (simp add: fill_between_def)

lemma axvline_last [simp]:
  "axvline x color linestyle linewidth (plt @ [fig]) =
     plt @ [fig\<lparr>ax_lines := ax_lines fig @
        [\<lparr>line_x = x, line_color = color, line_style = linestyle,
          line_width = linewidth\<rparr>]\<rparr>]"
  by (simp add: axvline_def)

subsection \<open>The y limits\<close>

lemma finfo_tiny_pos [simp]: "0 < finfo_tiny"
  by (simp add: finfo_tiny_def)

text \<open>
  With a lower limit of zero the upper limit is kept unless it is, in magnitude, below
  the threshold of \<open>nonsingular\<close>; then both limits are replaced, in the order in
  which the arguments were.
\<close>

lemma set_ylim_from_zero:
  "set_ylim 0 t =
     (if \<bar>t\<bar> < 10 ^ 21 * finfo_tiny
      then (if t < 0 then (0.05, - 0.05) else (- 0.05, 0.05))
      else (0, t))"
proof -
  have thr: "0 < 10 ^ 21 * finfo_tiny" by simp
  consider "t < 0" | "t = 0" | "0 < t" by linarith
  then show ?thesis
  proof cases
    case 1
    then have "\<not> - t \<le> - t * (1 / 10 ^ 15)" by simp
    with 1 show ?thesis
      by (simp add: set_ylim_def nonsingular_def Let_def max_def)
  next
    case 2
    with thr show ?thesis
      by (simp add: set_ylim_def nonsingular_def Let_def)
  next
    case 3
    then have "\<not> t \<le> t * (1 / 10 ^ 15)" by simp
    with 3 show ?thesis
      by (simp add: set_ylim_def nonsingular_def Let_def max_def)
  qed
qed

subsection \<open>The running maximum and the grid\<close>

lemma py_max_Max: "py_max ys = (if ys = [] then Inl ValueError else Inr (Max (set ys)))"
proof (cases ys)
  case Nil
  then show ?thesis by (simp add: py_max_def)
next
  case (Cons v vs)
  have "(\<lambda>item best. if item > best then item else best) = (max :: real \<Rightarrow> real \<Rightarrow> real)"
    by (intro ext) (simp add: max_def)
  then show ?thesis
    using Cons Max.set_eq_fold [of v vs] by (simp add: py_max_def)
qed

text \<open>
  From two samples on, overwriting the last sample with \<open>stop\<close> changes nothing in
  exact arithmetic, and the grid is the arithmetic progression from \<open>start\<close>.
\<close>

lemma linspace_grid:
  assumes "2 \<le> n"
  shows "linspace a b n =
    Inr (map (\<lambda>i. a + real i * ((b - a) / real_of_int (n - 1))) [0..<nat n])"
proof -
  let ?g = "map (\<lambda>i. a + real i * ((b - a) / real_of_int (n - 1))) [0..<nat n]"
  have "?g ! (nat n - 1) = b"
    using assms by (simp add: nth_map of_nat_diff)
  then have "?g[nat n - 1 := b] = ?g"
    by (metis list_update_id)
  moreover have "linspace a b n = Inr (?g[nat n - 1 := b])"
    using assms by (simp add: linspace_def Let_def comp_def algebra_simps)
  ultimately show ?thesis by simp
qed

lemma linspace_one: "linspace a b 1 = Inr [a]"
  by (simp add: linspace_def)

subsection \<open>The ways a call can end\<close>

lemma plot_tail_events_resolve_error:
  "resolve_distribution scipy distribution params = Inl e \<Longrightarrow>
   plot_tail_events scipy is_color_like plt distribution n tail_color center_color params
     = (Inl e, plt)"
  by (simp add: plot_tail_events_def)

lemma plot_tail_events_sample_error:
  "resolve_distribution scipy distribution params = Inr frozen \<Longrightarrow>
   sample_density frozen (fst (calculate_xrange (dist_mean frozen) (dist_std frozen)))
     (snd (calculate_xrange (dist_mean frozen) (dist_std frozen))) n = Inl e \<Longrightarrow>
   plot_tail_events scipy is_color_like plt distribution n tail_color center_color params
     = (Inl e, plt)"
  by (simp add: plot_tail_events_def Let_def calculate_xrange_def)

text \<open>
  Once the samples exist the figure is created. A colour that matplotlib does not know
  ends the call at the fill that uses it, and the final \<^verbatim>\<open>max(y)\<close> ends it on an empty
  sample, in both cases with the figure already in the registry.
\<close>

lemma plot_tail_events_color_error:
  assumes "resolve_distribution scipy distribution params = Inr frozen"
    and "sample_density frozen (fst (calculate_xrange (dist_mean frozen) (dist_std frozen)))
     (snd (calculate_xrange (dist_mean frozen) (dist_std frozen))) n = Inr (x, y)"
    and "\<not> (is_color_like center_color \<and> is_color_like tail_color)"
  shows "fst (plot_tail_events scipy is_color_like plt distribution n tail_color center_color
                params) = Inl ValueError"
  using assms
  by (auto simp add: plot_tail_events_def Let_def subplots_def calculate_xrange_def)

lemma plot_tail_events_drawn:
  assumes "resolve_distribution scipy distribution params = Inr frozen"
    and "sample_density frozen (fst (calculate_xrange (dist_mean frozen) (dist_std frozen)))
     (snd (calculate_xrange (dist_mean frozen) (dist_std frozen))) n = Inr (x, y)"
    and "is_color_like center_color" "is_color_like tail_color"
  shows "plot_tail_events scipy is_color_like plt distribution n tail_color center_color params =
    (let tails = calculate_tails (dist_mean frozen) (dist_std frozen);
         fig = \<lparr>figsize = (9, 6),
           ax_collections =
             [\<lparr>pc_x = x, pc_y1 = 0, pc_y2 = y, pc_where = None,
               pc_facecolor = center_color, pc_interpolate = True\<rparr>,
              \<lparr>pc_x = x, pc_y1 = 0, pc_y2 = y, pc_where = Some (left_tail_where x tails),
               pc_facecolor = tail_color, pc_interpolate = True\<rparr>,
              \<lparr>pc_x = x, pc_y1 = 0, pc_y2 = y, pc_where = Some (right_tail_where x tails),
               pc_facecolor = tail_color, pc_interpolate = True\<rparr>],
           ax_lines =
             [\<lparr>line_x = fst tails, line_color = ''black'', line_style = ''-'',
               line_width = 1\<rparr>,
              \<lparr>line_x = snd tails, line_color = ''black'', line_style = ''-'',
               line_width = 1\<rparr>,
              \<lparr>line_x = dist_mean frozen, line_color = ''black'', line_style = ''--'',
               line_width = 1\<rparr>],
           ax_title = Some (''Tail events for '' @ distribution @ '' distribution'', 16),
           ax_xlabel = Some (''x'', 14),
           ax_ylabel = Some (''f(x)'', 14),
           ax_xtick_fontsize = Some 14,
           ax_yticks = Some [],
           ax_ylim = None\<rparr>
     in if y = [] then (Inl ValueError, plt @ [fig])
        else (Inr (length plt),
              plt @ [fig\<lparr>ax_ylim := Some (set_ylim 0 (1.2 * Max (set y)))\<rparr>]))"
  using assms
  by (simp add: plot_tail_events_def Let_def py_max_Max subplots_def calculate_xrange_def)

lemma plot_tail_events_InrD:
  assumes "plot_tail_events scipy is_color_like plt distribution n tail_color center_color
             params = (Inr ax, plt')"
  shows "\<exists>frozen x y.
      resolve_distribution scipy distribution params = Inr frozen
    \<and> sample_density frozen (fst (calculate_xrange (dist_mean frozen) (dist_std frozen)))
         (snd (calculate_xrange (dist_mean frozen) (dist_std frozen))) n = Inr (x, y)
    \<and> y \<noteq> [] \<and> is_color_like center_color \<and> is_color_like tail_color"
proof (cases "resolve_distribution scipy distribution params")
  case (Inl e)
  then show ?thesis
    using assms plot_tail_events_resolve_error [OF Inl] by simp
next
  case res: (Inr frozen)
  let ?xr = "calculate_xrange (dist_mean frozen) (dist_std frozen)"
  show ?thesis
  proof (cases "sample_density frozen (fst ?xr) (snd ?xr) n")
    case (Inl e)
    then show ?thesis
      using assms plot_tail_events_sample_error [OF res Inl] by simp
  next
    case (Inr xy)
    obtain x y where xy: "xy = (x, y)" by (cases xy)
    have col: "is_color_like center_color \<and> is_color_like tail_color"
      using assms plot_tail_events_color_error [OF res Inr [unfolded xy]]
      by (metis Inl_Inr_False fst_conv)
    then have "y \<noteq> []"
      using assms plot_tail_events_drawn [OF res Inr [unfolded xy]]
      by (auto simp add: Let_def split: if_splits)
    then show ?thesis
      using res Inr xy col by blast
  qed
qed

subsection \<open>Rounding of magnitudes is monotone\<close>


lemma rne_of_int [simp]: "rne (of_int n) = n"
  by (simp add: rne_def)



lemma rne_numeral [simp]: "rne (numeral n) = numeral n"
  using rne_of_int [of "numeral n"] by simp





lemma binade_eqI:
  assumes "2 powr of_int k \<le> a" "a < 2 powr (of_int k + 1)" "- 1022 \<le> k"
  shows "binade a = k"
proof -
  have pos: "0 < a"
    using assms(1) powr_gt_zero [of 2 "of_int k"] by linarith
  have "of_int k \<le> log 2 a" "log 2 a < of_int k + 1"
    using assms pos by (simp_all add: le_log_iff log_less_iff)
  then have "\<lfloor>log 2 a\<rfloor> = k" by linarith
  then show ?thesis
    using assms(3) by (simp add: binade_def)
qed







subsection \<open>Rounding to a float\<close>

lemma round_mag_eval:
  assumes "- 1022 \<le> k" "2 powr of_int k \<le> a" "a < 2 powr (of_int k + 1)"
  shows "round_mag a = 2 powr (of_int k - 52) * of_int (rne (a / 2 powr (of_int k - 52)))"
proof -
  have "binade a = k" using assms by (intro binade_eqI)
  moreover have "a \<noteq> 0"
    using assms(2) powr_gt_zero [of 2 "of_int k"] by linarith
  ultimately show ?thesis by (simp add: round_mag_def)
qed

lemma overflow_threshold_pos [simp]:
  "0 < overflow_threshold" "0 \<le> overflow_threshold" "\<not> overflow_threshold \<le> 0"
  by (simp_all add: overflow_threshold_def)

lemma round_mag_0 [simp]: "round_mag 0 = 0"
  by (simp add: round_mag_def)

lemma round64_0 [simp]: "round64 0 = Fin 0"
  by (simp add: round64_def)

lemma round_mag_3: "round_mag 3 = 3"
  using round_mag_eval [of 1 3] by (simp add: powr_neg_numeral)

lemma round_mag_4: "round_mag 4 = 4"
  using round_mag_eval [of 2 4] by (simp add: powr_neg_numeral)

lemma round_mag_1: "round_mag 1 = 1"
  using round_mag_eval [of 0 1] by (simp add: powr_neg_numeral)

lemma round64_small [simp]: "round64 3 = Fin 3" "round64 4 = Fin 4" "round64 1 = Fin 1"
  by (simp_all add: round64_def round_mag_3 round_mag_4 round_mag_1 overflow_threshold_def)



lemma round64_not_NaN [simp]: "round64 x \<noteq> NaN"
  by (simp add: round64_def Let_def)

lemma fle_NegInf [simp]: "fle NegInf z \<longleftrightarrow> z \<noteq> NaN"
  by (cases z) simp_all

lemma fle_PosInf [simp]: "fle z PosInf \<longleftrightarrow> z \<noteq> NaN"
  by (cases z) simp_all



lemma as_float_small [simp]:
  "as_float (PyInt 3) = Inr (Fin 3)" "as_float (PyInt 4) = Inr (Fin 4)"
  "as_float (PyFloat f) = Inr f"
  by (simp_all add: as_float_def)







subsection \<open>The order of the four results\<close>


subsection \<open>The concrete calls, evaluated\<close>

lemma hex_color_defaults [simp]: "hex_color ''#ff0000''" "hex_color ''#e6ffff''"
  by (simp_all add: hex_color_def)

lemma resolve_exponential_default:
  "resolve_distribution scipy_frozen ''exponential'' [] = Inr (expon_frozen 0 1)"
  by (simp add: resolve_distribution_def distributions_def scipy_frozen_def kwarg_def)

lemma expon_frozen_std_simps [simp]:
  "dist_mean (expon_frozen 0 1) = 1"
  "dist_std (expon_frozen 0 1) = 1"
  "dist_pdf (expon_frozen 0 1) x = (if 0 \<le> x then exp (- x) else 0)"
  by (simp_all add: expon_frozen_def)

lemma upt3: "[0..<3] = [0, 1, 2]"
  by (simp add: upt_rec)

lemma sample_exponential_3:
  "sample_density (expon_frozen 0 1) (- 3) 5 3 = Inr ([- 3, 1, 5], [0, exp (- 1), exp (- 5)])"
  by (simp add: sample_density_def linspace_grid upt3)

lemma upt17: "[0..<17] = [0, 1, 2, 3, 4, 5, 6, 7, 8, 9, 10, 11, 12, 13, 14, 15, 16]"
  by (simp add: upt_rec)

lemma linspace_17: "linspace (- 3) 5 17 = Inr grid17"
  by (simp add: linspace_grid upt17 grid17_def)

lemma sample_exponential_17:
  "sample_density (expon_frozen 0 1) (- 3) 5 17
     = Inr (grid17, map (dist_pdf (expon_frozen 0 1)) grid17)"
  by (simp add: sample_density_def linspace_17)

lemma masks_17:
  "left_tail_where grid17 (- 2, 4)
     = [True, True, False, False, False, False, False, False, False, False, False, False,
        False, False, False, False, False]"
  "right_tail_where grid17 (- 2, 4)
     = [False, False, False, False, False, False, False, False, False, False, False, False,
        False, False, False, True, True]"
  by (simp_all add: left_tail_where_def right_tail_where_def grid17_def)

lemma collections_exponential_17:
  "fst exponential_17
     = Inr 0"
  "ax_collections
     (snd exponential_17
        ! 0)
     = [\<lparr>pc_x = grid17, pc_y1 = 0, pc_y2 = map (dist_pdf (expon_frozen 0 1)) grid17,
         pc_where = None, pc_facecolor = ''#e6ffff'', pc_interpolate = True\<rparr>,
        \<lparr>pc_x = grid17, pc_y1 = 0, pc_y2 = map (dist_pdf (expon_frozen 0 1)) grid17,
         pc_where = Some (left_tail_where grid17 (- 2, 4)), pc_facecolor = ''#ff0000'',
         pc_interpolate = True\<rparr>,
        \<lparr>pc_x = grid17, pc_y1 = 0, pc_y2 = map (dist_pdf (expon_frozen 0 1)) grid17,
         pc_where = Some (right_tail_where grid17 (- 2, 4)), pc_facecolor = ''#ff0000'',
         pc_interpolate = True\<rparr>]"
proof -
  have s: "sample_density (expon_frozen 0 1)
      (fst (calculate_xrange (dist_mean (expon_frozen 0 1)) (dist_std (expon_frozen 0 1))))
      (snd (calculate_xrange (dist_mean (expon_frozen 0 1)) (dist_std (expon_frozen 0 1)))) 17
     = Inr (grid17, map (dist_pdf (expon_frozen 0 1)) grid17)"
    by (simp add: sample_exponential_17)
  have ne: "map (dist_pdf (expon_frozen 0 1)) grid17 \<noteq> []"
    by (simp add: grid17_def)
  have t: "calculate_tails (dist_mean (expon_frozen 0 1)) (dist_std (expon_frozen 0 1)) = (- 2, 4)"
    by (simp add: calculate_tails_def)
  note d = plot_tail_events_drawn [where is_color_like = hex_color
      and center_color = "''#e6ffff''" and tail_color = "''#ff0000''" and plt = "[]",
      OF resolve_exponential_default s hex_color_defaults(2) hex_color_defaults(1),
      unfolded Let_def t, simplified ne if_False, folded exponential_17_def]
  show "fst exponential_17
     = Inr 0"
    by (simp only: d fst_conv list.size)
  show "ax_collections
     (snd exponential_17
        ! 0)
     = [\<lparr>pc_x = grid17, pc_y1 = 0, pc_y2 = map (dist_pdf (expon_frozen 0 1)) grid17,
         pc_where = None, pc_facecolor = ''#e6ffff'', pc_interpolate = True\<rparr>,
        \<lparr>pc_x = grid17, pc_y1 = 0, pc_y2 = map (dist_pdf (expon_frozen 0 1)) grid17,
         pc_where = Some (left_tail_where grid17 (- 2, 4)), pc_facecolor = ''#ff0000'',
         pc_interpolate = True\<rparr>,
        \<lparr>pc_x = grid17, pc_y1 = 0, pc_y2 = map (dist_pdf (expon_frozen 0 1)) grid17,
         pc_where = Some (right_tail_where grid17 (- 2, 4)), pc_facecolor = ''#ff0000'',
         pc_interpolate = True\<rparr>]"
    by (simp add: d)
qed


lemma plot_exponential_3:
  "fst exponential_3 = Inr 0"
  "ax_ylim (snd exponential_3 ! 0) = Some (set_ylim 0 (1.2 * exp (- 1)))"
proof -
  have s: "sample_density (expon_frozen 0 1)
      (fst (calculate_xrange (dist_mean (expon_frozen 0 1)) (dist_std (expon_frozen 0 1))))
      (snd (calculate_xrange (dist_mean (expon_frozen 0 1)) (dist_std (expon_frozen 0 1)))) 3
     = Inr ([- 3, 1, 5], [0, exp (- 1), exp (- 5)])"
    by (simp add: sample_exponential_3)
  note d = plot_tail_events_drawn [where is_color_like = hex_color
      and center_color = "''#e6ffff''" and tail_color = "''#ff0000''" and plt = "[]",
      OF resolve_exponential_default s hex_color_defaults(2) hex_color_defaults(1),
      folded exponential_3_def]
  show "fst exponential_3 = Inr 0"
    by (simp add: d Let_def)
  show "ax_ylim (snd exponential_3 ! 0) = Some (set_ylim 0 (1.2 * exp (- 1)))"
    by (simp add: d Let_def max_def)
qed

lemma exp_minus_one_large: "10 ^ 21 * finfo_tiny \<le> 1.2 * exp (- 1)"
proof -
  have "exp 1 \<le> (3::real)" by (rule exp_le)
  then have "1 / 3 \<le> 1 / exp (1::real)"
    by (intro divide_left_mono) simp_all
  then have "1 / 3 \<le> exp (- 1 :: real)"
    by (simp add: exp_minus inverse_eq_divide)
  moreover have "10 ^ 21 * finfo_tiny \<le> 1.2 * (1 / 3)"
    by (simp add: finfo_tiny_def)
  ultimately show ?thesis by linarith
qed

lemma resolve_uniform_default:
  "resolve_distribution scipy_frozen ''uniform'' [] = Inr (uniform_frozen 0 1)"
  by (simp add: resolve_distribution_def distributions_def scipy_frozen_def kwarg_def)

lemma uniform_frozen_std_simps [simp]:
  "dist_mean (uniform_frozen 0 1) = 1 / 2"
  "dist_std (uniform_frozen 0 1) = 1 / sqrt 12"
  "dist_pdf (uniform_frozen 0 1) x = (if 0 \<le> x \<and> x \<le> 1 then 1 else 0)"
  by (simp_all add: uniform_frozen_def)

lemma four_std_uniform: "1 / 2 < 4 * (1 / sqrt 12)"
proof -
  have "sqrt 12 < sqrt 64" by (simp only: real_sqrt_less_iff)
  moreover have "sqrt 64 = 8"
    using real_sqrt_abs [of 8] by simp
  ultimately have "sqrt 12 < 8" by simp
  moreover have "0 < sqrt 12" by simp
  ultimately show ?thesis by (simp add: field_simps)
qed

lemma upt2: "[0..<2] = [0, 1]"
  by (simp add: upt_rec)

lemma sample_uniform_2:
  "sample_density (uniform_frozen 0 1)
      (1 / 2 - 4 * (1 / sqrt 12)) (1 / 2 + 4 * (1 / sqrt 12)) 2
     = Inr ([1 / 2 - 4 * (1 / sqrt 12), 1 / 2 + 4 * (1 / sqrt 12)], [0, 0])"
proof -
  have "linspace (1 / 2 - 4 * (1 / sqrt 12)) (1 / 2 + 4 * (1 / sqrt 12)) 2
      = Inr [1 / 2 - 4 * (1 / sqrt 12), 1 / 2 + 4 * (1 / sqrt 12)]"
    by (simp add: linspace_grid upt2)
  moreover have "\<not> 0 \<le> 1 / 2 - 4 * (1 / sqrt 12)" "\<not> 1 / 2 + 4 * (1 / sqrt 12) \<le> 1"
    using four_std_uniform by linarith+
  ultimately show ?thesis
    by (simp add: sample_density_def)
qed

lemma plot_uniform_2:
  "fst uniform_2 = Inr 0"
  "ax_ylim (snd uniform_2 ! 0) = Some (- 0.05, 0.05)"
proof -
  have s: "sample_density (uniform_frozen 0 1)
      (fst (calculate_xrange (dist_mean (uniform_frozen 0 1)) (dist_std (uniform_frozen 0 1))))
      (snd (calculate_xrange (dist_mean (uniform_frozen 0 1)) (dist_std (uniform_frozen 0 1)))) 2
     = Inr ([1 / 2 - 4 * (1 / sqrt 12), 1 / 2 + 4 * (1 / sqrt 12)], [0, 0])"
    using sample_uniform_2 by simp
  note d = plot_tail_events_drawn [where is_color_like = hex_color
      and center_color = "''#e6ffff''" and tail_color = "''#ff0000''" and plt = "[]",
      OF resolve_uniform_default s hex_color_defaults(2) hex_color_defaults(1),
      folded uniform_2_def]
  show "fst uniform_2 = Inr 0"
    by (simp add: d Let_def)
  show "ax_ylim (snd uniform_2 ! 0) = Some (- 0.05, 0.05)"
    by (simp add: d Let_def set_ylim_from_zero)
qed

section \<open>The arithmetic helpers\<close>









section \<open>Resolving the distribution name\<close>

text \<open>
  C1. The claim is that a name resolves exactly when it is one of \<^verbatim>\<open>normal\<close>,
  \<^verbatim>\<open>uniform\<close>, \<^verbatim>\<open>laplace\<close>, \<^verbatim>\<open>exponential\<close>. The docstring of \<open>plot_tail_events\<close> lists
  \<^verbatim>\<open>'laplace'\<close> among the names it accepts too, but the key of the table is
  \<^verbatim>\<open>'Laplace'\<close>. So the call with the lower-case name fails the assertion before
  anything else happens, whatever the library and the other arguments are; the
  capitalised name reaches the constructor; and the names that pass the assertion are
  the four keys as the table spells them.
\<close>

theorem laplace_lowercase_rejected:
  "plot_tail_events scipy is_color_like plt ''laplace'' n tail_color center_color params
     = (Inl (AssertionError assert_message), plt)
 \<and> resolve_distribution scipy ''Laplace'' params = scipy Stats_laplace params
 \<and> (map_of distributions distribution = None)
     = (distribution \<notin> {''normal'', ''uniform'', ''Laplace'', ''exponential''})"
  by (simp add: plot_tail_events_def resolve_distribution_def distributions_def)

section \<open>Sampling\<close>

text \<open>
  C4. For a sample count \<open>n\<close> of at least two the sampling step returns \<open>n\<close> values
  \<open>x\<close> and \<open>n\<close> values \<open>y\<close>; the first \<open>x\<close> is \<open>x_min\<close> and the last is \<open>x_max\<close>;
  neighbouring values are the same distance apart; each \<open>y\<close> is the density at the
  \<open>x\<close> of the same position; and the values of \<open>x\<close> increase along the sequence when
  \<open>x_min\<close> is below \<open>x_max\<close>, as it is for the domain of a distribution with a positive
  standard deviation.
\<close>

theorem sample_density_grid:
  assumes "2 \<le> n"
  shows "\<exists>x y. sample_density frozen x_min x_max n = Inr (x, y)
     \<and> length x = nat n \<and> length y = nat n
     \<and> x ! 0 = x_min \<and> x ! (nat n - 1) = x_max
     \<and> (\<forall>i. Suc i < nat n \<longrightarrow> x ! Suc i - x ! i = (x_max - x_min) / real_of_int (n - 1))
     \<and> (\<forall>i < nat n. y ! i = dist_pdf frozen (x ! i))
     \<and> (x_min \<le> x_max \<longrightarrow> sorted x)
     \<and> (x_min < x_max \<longrightarrow> sorted_wrt (<) x)"
proof -
  define step where "step = (x_max - x_min) / real_of_int (n - 1)"
  define x where "x = map (\<lambda>i. x_min + real i * step) [0..<nat n]"
  have pos: "0 < real_of_int (n - 1)"
    using assms by simp
  have sd: "sample_density frozen x_min x_max n = Inr (x, map (dist_pdf frozen) x)"
    by (simp add: sample_density_def linspace_grid [OF assms] x_def step_def)
  have len: "length x = nat n"
    by (simp add: x_def)
  have nth: "x ! i = x_min + real i * step" if "i < nat n" for i
    using that by (simp add: x_def)
  have first: "x ! 0 = x_min"
    using assms nth [of 0] by simp
  have "real (nat n - 1) * step = x_max - x_min"
    using assms by (simp add: step_def of_nat_diff)
  then have last: "x ! (nat n - 1) = x_max"
    using assms nth [of "nat n - 1"] by simp
  have spacing: "\<forall>i. Suc i < nat n \<longrightarrow> x ! Suc i - x ! i = step"
    by (simp add: nth ring_distribs)
  have dens: "\<forall>i < nat n. map (dist_pdf frozen) x ! i = dist_pdf frozen (x ! i)"
    by (simp add: len)
  have mono: "x_min \<le> x_max \<longrightarrow> sorted x"
  proof
    assume "x_min \<le> x_max"
    then have "0 \<le> step" using pos by (simp add: step_def)
    then show "sorted x"
      by (simp add: sorted_iff_nth_mono len nth mult_right_mono)
  qed
  have smono: "x_min < x_max \<longrightarrow> sorted_wrt (<) x"
  proof
    assume "x_min < x_max"
    then have "0 < step" using pos by (simp add: step_def)
    then show "sorted_wrt (<) x"
      by (simp add: sorted_wrt_iff_nth_less len nth)
  qed
  show ?thesis
    using sd len first last spacing dens mono smono
    unfolding step_def by (intro exI [of _ x] exI [of _ "map (dist_pdf frozen) x"]) simp
qed

theorem sample_density_grid_witness:
  "(2::int) \<le> 3
 \<and> (\<exists>x y. sample_density (expon_frozen 0 1) (- 3) 5 3 = Inr (x, y)
        \<and> length x = 3 \<and> length y = 3 \<and> x ! 0 = - 3 \<and> x ! 2 = 5
        \<and> x ! 1 - x ! 0 = 4 \<and> x ! 2 - x ! 1 = 4
        \<and> sorted_wrt (<) x)"
proof -
  have h: "(2::int) \<le> 3" by simp
  obtain x y where *: "sample_density (expon_frozen 0 1) (- 3) 5 3 = Inr (x, y)"
     "length x = nat 3" "length y = nat 3" "x ! 0 = - 3" "x ! (nat 3 - 1) = 5"
     "\<forall>i. Suc i < nat 3 \<longrightarrow> x ! Suc i - x ! i = (5 - (- 3)) / real_of_int (3 - 1)"
     "(- 3 :: real) < 5 \<longrightarrow> sorted_wrt (<) x"
    using sample_density_grid [OF h, of "expon_frozen 0 1" "- 3" 5] by blast
  have "x ! 1 - x ! 0 = 4" "x ! 2 - x ! 1 = 4"
    using *(6) [rule_format, of 0] *(6) [rule_format, of 1] by (simp_all add: numeral_2_eq_2)
  then show ?thesis
    using * by auto
qed

text \<open>
  C5, as the code has it. The claim is that a sample count below two is rejected. The
  sampling step has no check of its own, and \<^verbatim>\<open>np.linspace\<close> rejects negative counts
  only: the step fails exactly for \<open>n < 0\<close>, and for every \<open>n \<ge> 0\<close>, zero and one
  included, it returns two sequences of length \<open>n\<close>.
\<close>

theorem sample_density_error_iff:
  "((\<exists>e. sample_density frozen x_min x_max n = Inl e) \<longleftrightarrow> n < 0)
 \<and> ((\<exists>x y. sample_density frozen x_min x_max n = Inr (x, y)
          \<and> length x = nat n \<and> length y = nat n) \<longleftrightarrow> 0 \<le> n)"
  by (simp add: sample_density_def linspace_def Let_def)

text \<open>
  The claim of C5 fails at \<open>n = 1\<close>: the step returns the single sample \<open>x_min\<close> with
  its density.
\<close>

theorem sample_density_accepts_one:
  "sample_density (expon_frozen 0 1) (- 3) 5 1 = Inr ([- 3], [0])"
  by (simp add: sample_density_def linspace_one)

section \<open>The figure that a call draws\<close>

text \<open>
  C3, as the code has it. The claim is that the three fills divide the samples among
  them. The fill in the centre colour has no mask: it is drawn over every sample, the
  tails included, and the two fills in the tail colour are drawn over it. What holds:
  the fills of a successful call are drawn on exactly the sampled \<open>x\<close> and \<open>y\<close>; the
  masks \<open>left\<close> and \<open>right\<close> of the tail fills have one entry for each sample; and, with a
  standard deviation that is not negative, a sample is in the left mask exactly when it
  is below the lower tail boundary and in the right mask exactly when it is above the
  upper one, never in both, and in neither exactly when it lies between the boundaries,
  the boundaries themselves included.
\<close>

theorem tail_fills_over_centre_fill:
  assumes "plot_tail_events scipy is_color_like plt distribution n tail_color center_color
             params = (Inr ax, plt')"
    and "resolve_distribution scipy distribution params = Inr frozen"
    and "0 \<le> dist_std frozen"
    and "calculate_tails (dist_mean frozen) (dist_std frozen) = (lower, upper)"
  shows "\<exists>x y left right.
      sample_density frozen (fst (calculate_xrange (dist_mean frozen) (dist_std frozen)))
        (snd (calculate_xrange (dist_mean frozen) (dist_std frozen))) n = Inr (x, y)
    \<and> ax_collections (plt' ! ax) =
        [\<lparr>pc_x = x, pc_y1 = 0, pc_y2 = y, pc_where = None,
          pc_facecolor = center_color, pc_interpolate = True\<rparr>,
         \<lparr>pc_x = x, pc_y1 = 0, pc_y2 = y, pc_where = Some left,
          pc_facecolor = tail_color, pc_interpolate = True\<rparr>,
         \<lparr>pc_x = x, pc_y1 = 0, pc_y2 = y, pc_where = Some right,
          pc_facecolor = tail_color, pc_interpolate = True\<rparr>]
    \<and> length left = length x \<and> length right = length x
    \<and> (\<forall>i < length x.
          (left ! i \<longleftrightarrow> x ! i < lower)
        \<and> (right ! i \<longleftrightarrow> upper < x ! i)
        \<and> \<not> (left ! i \<and> right ! i)
        \<and> (\<not> left ! i \<and> \<not> right ! i \<longleftrightarrow> lower \<le> x ! i \<and> x ! i \<le> upper)
        \<and> (x ! i = lower \<or> x ! i = upper \<longrightarrow> \<not> left ! i \<and> \<not> right ! i))"
proof -
  obtain frozen' x y where r: "resolve_distribution scipy distribution params = Inr frozen'"
    and s': "sample_density frozen'
         (fst (calculate_xrange (dist_mean frozen') (dist_std frozen')))
         (snd (calculate_xrange (dist_mean frozen') (dist_std frozen'))) n = Inr (x, y)"
    and y: "y \<noteq> []"
    and col: "is_color_like center_color" "is_color_like tail_color"
    using plot_tail_events_InrD [OF assms(1)] by blast
  have "frozen' = frozen" using r assms(2) by simp
  with s' have s: "sample_density frozen
         (fst (calculate_xrange (dist_mean frozen) (dist_std frozen)))
         (snd (calculate_xrange (dist_mean frozen) (dist_std frozen))) n = Inr (x, y)"
    by simp
  let ?tails = "calculate_tails (dist_mean frozen) (dist_std frozen)"
  let ?left = "left_tail_where x ?tails"
  let ?right = "right_tail_where x ?tails"
  have le: "lower \<le> upper"
    using assms(3,4) by (auto simp add: calculate_tails_def)
  have cols: "ax_collections (plt' ! ax) =
        [\<lparr>pc_x = x, pc_y1 = 0, pc_y2 = y, pc_where = None,
          pc_facecolor = center_color, pc_interpolate = True\<rparr>,
         \<lparr>pc_x = x, pc_y1 = 0, pc_y2 = y, pc_where = Some ?left,
          pc_facecolor = tail_color, pc_interpolate = True\<rparr>,
         \<lparr>pc_x = x, pc_y1 = 0, pc_y2 = y, pc_where = Some ?right,
          pc_facecolor = tail_color, pc_interpolate = True\<rparr>]"
    using assms(1) y plot_tail_events_drawn [OF assms(2) s col, of plt]
    by (auto simp add: Let_def)
  have lens: "length ?left = length x \<and> length ?right = length x"
    by (simp add: left_tail_where_def right_tail_where_def)
  have part: "\<forall>i < length x.
          (?left ! i \<longleftrightarrow> x ! i < lower)
        \<and> (?right ! i \<longleftrightarrow> upper < x ! i)
        \<and> \<not> (?left ! i \<and> ?right ! i)
        \<and> (\<not> ?left ! i \<and> \<not> ?right ! i \<longleftrightarrow> lower \<le> x ! i \<and> x ! i \<le> upper)
        \<and> (x ! i = lower \<or> x ! i = upper \<longrightarrow> \<not> ?left ! i \<and> \<not> ?right ! i)"
    using le assms(4) by (auto simp add: left_tail_where_def right_tail_where_def)
  show ?thesis
    using s cols lens part by blast
qed

theorem tail_fills_over_centre_fill_witness:
  "fst exponential_17 = Inr 0
 \<and> resolve_distribution scipy_frozen ''exponential'' [] = Inr (expon_frozen 0 1)
 \<and> 0 \<le> dist_std (expon_frozen 0 1)
 \<and> calculate_tails (dist_mean (expon_frozen 0 1)) (dist_std (expon_frozen 0 1)) = (- 2, 4)
 \<and> (\<exists>x y left right.
      sample_density (expon_frozen 0 1) (- 3) 5 17 = Inr (x, y)
    \<and> ax_collections (snd exponential_17 ! 0) =
        [\<lparr>pc_x = x, pc_y1 = 0, pc_y2 = y, pc_where = None,
          pc_facecolor = ''#e6ffff'', pc_interpolate = True\<rparr>,
         \<lparr>pc_x = x, pc_y1 = 0, pc_y2 = y, pc_where = Some left,
          pc_facecolor = ''#ff0000'', pc_interpolate = True\<rparr>,
         \<lparr>pc_x = x, pc_y1 = 0, pc_y2 = y, pc_where = Some right,
          pc_facecolor = ''#ff0000'', pc_interpolate = True\<rparr>]
    \<and> length left = length x \<and> length right = length x
    \<and> (\<forall>i < length x.
          (left ! i \<longleftrightarrow> x ! i < - 2)
        \<and> (right ! i \<longleftrightarrow> 4 < x ! i)
        \<and> \<not> (left ! i \<and> right ! i)
        \<and> (\<not> left ! i \<and> \<not> right ! i \<longleftrightarrow> - 2 \<le> x ! i \<and> x ! i \<le> 4)
        \<and> (x ! i = - 2 \<or> x ! i = 4 \<longrightarrow> \<not> left ! i \<and> \<not> right ! i)))"
proof -
  have call: "plot_tail_events scipy_frozen hex_color [] ''exponential'' 17 ''#ff0000''
      ''#e6ffff'' [] = (Inr 0, snd exponential_17)"
    using collections_exponential_17(1) by (simp add: exponential_17_def prod_eq_iff)
  have std: "0 \<le> dist_std (expon_frozen 0 1)" by simp
  have tails:
    "calculate_tails (dist_mean (expon_frozen 0 1)) (dist_std (expon_frozen 0 1)) = (- 2, 4)"
    by (simp add: calculate_tails_def)
  have xr: "fst (calculate_xrange (dist_mean (expon_frozen 0 1)) (dist_std (expon_frozen 0 1)))
      = - 3"
    "snd (calculate_xrange (dist_mean (expon_frozen 0 1)) (dist_std (expon_frozen 0 1))) = 5"
    by simp_all
  show ?thesis
    using tail_fills_over_centre_fill [OF call resolve_exponential_default std tails]
      collections_exponential_17(1) resolve_exponential_default std tails
    unfolding xr exponential_17_def by blast
qed

text \<open>
  The claim of C3 fails on the exponential distribution with seventeen samples, where
  the tail boundaries are \<open>-2\<close> and \<open>4\<close>: the first sample, \<open>-3\<close>, is in the left mask,
  and it is also under the fill in the centre colour, which has no mask and is drawn on
  all seventeen samples.
\<close>

theorem centre_fill_covers_tail_samples:
  "fst exponential_17 = Inr 0
 \<and> calculate_tails (dist_mean (expon_frozen 0 1)) (dist_std (expon_frozen 0 1)) = (- 2, 4)
 \<and> map pc_facecolor (ax_collections (snd exponential_17 ! 0))
     = [''#e6ffff'', ''#ff0000'', ''#ff0000'']
 \<and> map pc_x (ax_collections (snd exponential_17 ! 0)) = [grid17, grid17, grid17]
 \<and> grid17 ! 0 = - 3
 \<and> map pc_where (ax_collections (snd exponential_17 ! 0))
     = [None,
        Some [True, True, False, False, False, False, False, False, False, False, False,
              False, False, False, False, False, False],
        Some [False, False, False, False, False, False, False, False, False, False, False,
              False, False, False, False, True, True]]"
  using collections_exponential_17 masks_17
  by (simp add: exponential_17_def calculate_tails_def grid17_def)

text \<open>
  C6, as the code has it. The claim is that the y limits of every successful call are
  \<open>0\<close> and \<open>1.2\<close> times the greatest sampled density. matplotlib does not keep limits
  that are too close together. What holds for every successful call: the list of y ticks
  is empty, and the y limits are \<open>0\<close> and \<open>1.2\<close> times the greatest sampled density
  unless that product is, in magnitude, below \<open>10\<^sup>2\<^sup>1\<close> times the smallest normal
  float, as it is when the greatest sampled density is \<open>0\<close>; then the limits are
  \<open>-0.05\<close> and \<open>0.05\<close> (the other way round if the product is negative, which no
  density gives).
\<close>

theorem ylim_and_yticks:
  assumes "plot_tail_events scipy is_color_like plt distribution n tail_color center_color
             params = (Inr ax, plt')"
  shows "\<exists>frozen x y.
      resolve_distribution scipy distribution params = Inr frozen
    \<and> sample_density frozen (fst (calculate_xrange (dist_mean frozen) (dist_std frozen)))
         (snd (calculate_xrange (dist_mean frozen) (dist_std frozen))) n = Inr (x, y)
    \<and> ax_yticks (plt' ! ax) = Some []
    \<and> ax_ylim (plt' ! ax) =
        Some (if \<bar>1.2 * Max (set y)\<bar> < 10 ^ 21 * finfo_tiny
              then (if 1.2 * Max (set y) < 0 then (0.05, - 0.05) else (- 0.05, 0.05))
              else (0, 1.2 * Max (set y)))"
proof -
  obtain frozen x y where r: "resolve_distribution scipy distribution params = Inr frozen"
    and s: "sample_density frozen
         (fst (calculate_xrange (dist_mean frozen) (dist_std frozen)))
         (snd (calculate_xrange (dist_mean frozen) (dist_std frozen))) n = Inr (x, y)"
    and y: "y \<noteq> []"
    and col: "is_color_like center_color" "is_color_like tail_color"
    using plot_tail_events_InrD [OF assms] by blast
  have "ax_ylim (plt' ! ax) = Some (set_ylim 0 (1.2 * Max (set y)))
      \<and> ax_yticks (plt' ! ax) = Some []"
    using assms y plot_tail_events_drawn [OF r s col, of plt]
    by (auto simp add: Let_def)
  then show ?thesis
    using r s unfolding set_ylim_from_zero by blast
qed

theorem ylim_and_yticks_witness:
  "fst exponential_3 = Inr 0
 \<and> \<not> \<bar>1.2 * exp (- 1)\<bar> < 10 ^ 21 * finfo_tiny
 \<and> ax_ylim (snd exponential_3 ! 0) = Some (0, 1.2 * exp (- 1))
 \<and> ax_yticks (snd exponential_3 ! 0) = Some []"
proof -
  have call: "plot_tail_events scipy_frozen hex_color [] ''exponential'' 3 ''#ff0000''
      ''#e6ffff'' [] = (Inr 0, snd exponential_3)"
    using plot_exponential_3(1) by (simp add: exponential_3_def prod_eq_iff)
  obtain frozen x y where
    r: "resolve_distribution scipy_frozen ''exponential'' [] = Inr frozen"
    and s: "sample_density frozen
         (fst (calculate_xrange (dist_mean frozen) (dist_std frozen)))
         (snd (calculate_xrange (dist_mean frozen) (dist_std frozen))) 3 = Inr (x, y)"
    and t: "ax_yticks (snd exponential_3 ! 0) = Some []"
    and l: "ax_ylim (snd exponential_3 ! 0) =
        Some (if \<bar>1.2 * Max (set y)\<bar> < 10 ^ 21 * finfo_tiny
              then (if 1.2 * Max (set y) < 0 then (0.05, - 0.05) else (- 0.05, 0.05))
              else (0, 1.2 * Max (set y)))"
    using ylim_and_yticks [OF call] by blast
  have "frozen = expon_frozen 0 1"
    using r by (simp add: resolve_exponential_default)
  then have "y = [0, exp (- 1), exp (- 5)]"
    using s by (simp add: sample_exponential_3)
  then have m: "Max (set y) = exp (- 1)"
    by (simp add: max_def)
  have big: "\<not> \<bar>1.2 * exp (- 1)\<bar> < 10 ^ 21 * finfo_tiny"
    using exp_minus_one_large by simp
  show ?thesis
    using l t m big plot_exponential_3(1) by simp
qed

text \<open>
  The claim of C6 fails on the uniform distribution with two samples: the samples are the
  two ends of the plot domain, which lie outside the unit interval, so both densities
  are \<open>0\<close>; the call succeeds, and the y limits of its figure are \<open>-0.05\<close> and \<open>0.05\<close>,
  not \<open>0\<close> and \<open>1.2 \<times> 0\<close>.
\<close>

theorem ylim_replaced_when_flat:
  "fst uniform_2 = Inr 0
 \<and> sample_density (uniform_frozen 0 1)
      (1 / 2 - 4 * (1 / sqrt 12)) (1 / 2 + 4 * (1 / sqrt 12)) 2
     = Inr ([1 / 2 - 4 * (1 / sqrt 12), 1 / 2 + 4 * (1 / sqrt 12)], [0, 0])
 \<and> 1.2 * Max (set [0, 0 :: real]) = 0
 \<and> ax_ylim (snd uniform_2 ! 0) = Some (- 0.05, 0.05)"
  using plot_uniform_2 sample_uniform_2 by (simp add: uniform_2_def)

section \<open>Failure\<close>

text \<open>
  C8. A call that fails on the distribution name or in the constructor of the
  distribution returns that very exception and leaves the registry of figures as it
  was: no figure has been created.
\<close>

theorem failure_leaves_pyplot_untouched:
  assumes "resolve_distribution scipy distribution params = Inl e"
  shows "plot_tail_events scipy is_color_like plt distribution n tail_color center_color params
           = (Inl e, plt)"
  using assms by (simp add: plot_tail_events_def)

theorem failure_leaves_pyplot_untouched_witness:
  "resolve_distribution scipy_frozen ''gamma'' [] = Inl (AssertionError assert_message)
 \<and> plot_tail_events scipy_frozen hex_color [] ''gamma'' 100 ''#ff0000'' ''#e6ffff'' []
     = (Inl (AssertionError assert_message), [])
 \<and> resolve_distribution scipy_frozen ''normal'' [(''shape'', 2)]
     = Inl (LibraryError ''TypeError'')
 \<and> plot_tail_events scipy_frozen hex_color [] ''normal'' 100 ''#ff0000'' ''#e6ffff'' [(''shape'', 2)]
     = (Inl (LibraryError ''TypeError''), [])"
proof -
  have a: "resolve_distribution scipy_frozen ''gamma'' [] = Inl (AssertionError assert_message)"
    by (simp add: resolve_distribution_def distributions_def)
  have b: "resolve_distribution scipy_frozen ''normal'' [(''shape'', 2)]
     = Inl (LibraryError ''TypeError'')"
    by (simp add: resolve_distribution_def distributions_def scipy_frozen_def)
  show ?thesis
    using a b failure_leaves_pyplot_untouched [OF a] failure_leaves_pyplot_untouched [OF b]
    by simp
qed

end
